theory Spec2Isabelle
  imports Main "HOL-Library.Word"
begin

section \<open>JavaScript values of frontend/script.js\<close>

text \<open>
  A JavaScript string is a sequence of UTF-16 code units, and \<open>p.length\<close> counts
  them; the model keeps that: a string is a list of 16-bit words. \<open>js\<close> embeds an
  ASCII literal of the source; characters outside ASCII are written as their code units.
\<close>

type_synonym jsstring = "16 word list"

definition js :: "string \<Rightarrow> jsstring" where
  "js s = map (\<lambda>c. of_nat (of_char c)) s"

text \<open>
  The values \<open>response.json()\<close> can deliver, and \<open>undefined\<close> for a property that
  is missing. Numbers are the integers (on which the arithmetic of the source, one
  multiplication by ten and one minimum, is the arithmetic of doubles below \<open>2^53\<close>);
  \<open>NaN\<close> appears only as a result of a conversion. \<open>JObj\<close> carries the own properties
  of the parsed object.
\<close>

datatype jsval =
    JUndefined
  | JNull
  | JBool bool
  | JNum int
  | JStr jsstring
  | JArr "jsval list"
  | JObj "(jsstring \<times> jsval) list"

datatype jsnum = Num int | NaN

datatype exn = TypeError | SyntaxError | URIError | FetchRejected

subsection \<open>Number to string\<close>

definition digit :: "nat \<Rightarrow> 16 word" where
  "digit d = of_nat (48 + d)"

fun show_nat :: "nat \<Rightarrow> jsstring" where
  "show_nat n = (if n < 10 then [digit n] else show_nat (n div 10) @ [digit (n mod 10)])"

declare show_nat.simps [simp del]

definition show_int :: "int \<Rightarrow> jsstring" where
  "show_int i = (if i < 0 then js ''-'' @ show_nat (nat (- i)) else show_nat (nat i))"

definition show_num :: "jsnum \<Rightarrow> jsstring" where
  "show_num x = (case x of NaN \<Rightarrow> js ''NaN'' | Num i \<Rightarrow> show_int i)"

subsection \<open>Property access, ToString, ToBoolean\<close>

text \<open>
  \<open>data.k\<close>: a TypeError (\<open>None\<close>) on \<open>null\<close> and \<open>undefined\<close>, the own property
  of an object, \<open>undefined\<close> otherwise. The source reads \<open>access_token\<close>, \<open>is_admin\<close>,
  \<open>detail\<close>, \<open>warning\<close>, \<open>risk_level\<close>, \<open>score\<close> and \<open>action\<close>; no prototype
  has a property of one of these names.
\<close>

definition own_prop :: "(jsstring \<times> jsval) list \<Rightarrow> jsstring \<Rightarrow> jsval" where
  "own_prop kvs k = (case map_of kvs k of None \<Rightarrow> JUndefined | Some v \<Rightarrow> v)"

fun get_prop :: "jsval \<Rightarrow> jsstring \<Rightarrow> jsval option" where
  "get_prop JUndefined k = None"
| "get_prop JNull k = None"
| "get_prop (JObj kvs) k = Some (own_prop kvs k)"
| "get_prop v k = Some JUndefined"

text \<open>
  The conversion to a string that \<open>alert\<close>, \<open>localStorage.setItem\<close> and the
  assignment to \<open>innerText\<close> apply to their argument. An array is joined with commas,
  \<open>null\<close> and \<open>undefined\<close> elements giving the empty string. A parsed object has no
  callable property of its own, so it converts through \<open>Object.prototype.toString\<close>
  unless it has an own property \<open>toString\<close>, which hides that method: then the
  conversion throws a TypeError (\<open>None\<close>).
\<close>

fun to_string :: "jsval \<Rightarrow> jsstring option"
  and join_elems :: "jsval list \<Rightarrow> jsstring option"
  and elem_string :: "jsval \<Rightarrow> jsstring option" where
  "to_string JUndefined = Some (js ''undefined'')"
| "to_string JNull = Some (js ''null'')"
| "to_string (JBool b) = Some (if b then js ''true'' else js ''false'')"
| "to_string (JNum i) = Some (show_int i)"
| "to_string (JStr s) = Some s"
| "to_string (JArr xs) = join_elems xs"
| "to_string (JObj kvs) =
     (if map_of kvs (js ''toString'') = None then Some (js ''[object Object]'') else None)"
| "join_elems [] = Some []"
| "join_elems [x] = elem_string x"
| "join_elems (x # y # ys) =
     (case elem_string x of None \<Rightarrow> None
      | Some a \<Rightarrow> (case join_elems (y # ys) of None \<Rightarrow> None
          | Some b \<Rightarrow> Some (a @ js '','' @ b)))"
| "elem_string JUndefined = Some []"
| "elem_string JNull = Some []"
| "elem_string (JBool b) = to_string (JBool b)"
| "elem_string (JNum i) = to_string (JNum i)"
| "elem_string (JStr s) = to_string (JStr s)"
| "elem_string (JArr xs) = to_string (JArr xs)"
| "elem_string (JObj kvs) = to_string (JObj kvs)"

text \<open>
  The assignment to \<open>innerText\<close> differs in one place: \<open>null\<close> gives the empty
  string there.
\<close>

definition inner_text :: "jsval \<Rightarrow> jsstring option" where
  "inner_text v = (if v = JNull then Some [] else to_string v)"

fun to_boolean :: "jsval \<Rightarrow> bool" where
  "to_boolean JUndefined = False"
| "to_boolean JNull = False"
| "to_boolean (JBool b) = b"
| "to_boolean (JNum i) = (i \<noteq> 0)"
| "to_boolean (JStr s) = (s \<noteq> [])"
| "to_boolean (JArr xs) = True"
| "to_boolean (JObj kvs) = True"

section \<open>The page: elements, storage, events\<close>

text \<open>
  The elements whose class list the script changes. An element is displayed unless its
  class list holds \<open>hidden\<close>; \<open>hidden s e\<close> says that it does.
\<close>

datatype elem =
  landingSection | registerSection | loginSection | dashboardSection | globeContainer | result

datatype rule_id = rule_length | rule_upper | rule_lower | rule_number | rule_special

record rule_el =
  innerText :: jsstring
  color :: jsstring

record request =
  url :: jsstring
  req_method :: jsstring
  headers :: "(jsstring \<times> jsstring) list"
  body :: "jsstring option"

text \<open>
  A response: its status, and what \<open>response.json()\<close> resolves to (\<open>None\<close> when the
  body is not JSON and the promise rejects). \<open>response.ok\<close> is the range 200 to 299.
\<close>

record response =
  status :: nat
  json :: "jsval option"

definition ok :: "response \<Rightarrow> bool" where
  "ok r = (200 \<le> status r \<and> status r \<le> 299)"

text \<open>
  What a call does to the outside, in order: a dialog, a request handed to \<open>fetch\<close>,
  a read of the response body, a line on the console.
\<close>

datatype event = Alert jsstring | Fetch request | ReadJson | ConsoleError exn

text \<open>
  The page as the script sees it: the values of the five input fields, the storage, the
  \<open>hidden\<close> class of the elements, the guard of \<open>initGlobe\<close>, the display style of
  the admin button, the five rule lines (their text, which holds no markup, and colour),
  the class list of the strength bar, the three result texts, the string last assigned
  to the \<open>style.width\<close> of the risk meter (what the style engine makes of that string
  is outside the model), and the events so far. Each call is modelled on its own, from
  the state it starts in to the state it ends in.
\<close>

record state =
  regUsername :: jsstring
  regPassword :: jsstring
  loginUsername :: jsstring
  loginPassword :: jsstring
  message :: jsstring
  localStorage :: "jsstring \<rightharpoonup> jsstring"
  hidden :: "elem \<Rightarrow> bool"
  globeStarted :: bool
  adminBtn_display :: jsstring
  rule :: "rule_id \<Rightarrow> rule_el"
  strengthBar :: "jsstring list"
  risk_innerText :: jsstring
  score_innerText :: jsstring
  action_innerText :: jsstring
  riskMeter_width :: jsstring
  events :: "event list"

text \<open>
  The platform functions the script calls and does not define: \<open>fetch\<close> (\<open>None\<close>: the
  promise rejects, no response was received), \<open>encodeURIComponent\<close> (\<open>None\<close>: a
  URIError, on a lone surrogate), \<open>JSON.stringify\<close>, and the conversion of a string
  to a number.
\<close>

record env =
  fetch :: "request \<Rightarrow> response option"
  encodeURIComponent :: "jsstring \<Rightarrow> jsstring option"
  JSON_stringify :: "jsval \<Rightarrow> jsstring"
  StringToNumber :: "jsstring \<Rightarrow> jsnum"

definition API :: jsstring where
  "API = js ''https://secure-web-application-architecture-production.up.railway.app''"

definition alert :: "jsstring \<Rightarrow> state \<Rightarrow> state" where
  "alert m s = s\<lparr>events := events s @ [Alert m]\<rparr>"

definition console_error :: "exn \<Rightarrow> state \<Rightarrow> state" where
  "console_error e s = s\<lparr>events := events s @ [ConsoleError e]\<rparr>"

definition setItem :: "jsstring \<Rightarrow> jsstring \<Rightarrow> state \<Rightarrow> state" where
  "setItem k v s = s\<lparr>localStorage := (localStorage s)(k \<mapsto> v)\<rparr>"

definition removeItem :: "jsstring \<Rightarrow> state \<Rightarrow> state" where
  "removeItem k s = s\<lparr>localStorage := (localStorage s)(k := None)\<rparr>"

definition classList_add :: "jsstring \<Rightarrow> jsstring list \<Rightarrow> jsstring list" where
  "classList_add c cs = (if c \<in> set cs then cs else cs @ [c])"

section \<open>Page switch\<close>

definition sections :: "elem list" where
  "sections = [landingSection, registerSection, loginSection, dashboardSection]"

definition hideAll :: "state \<Rightarrow> state" where
  "hideAll s =
     (let s1 = fold (\<lambda>id s. s\<lparr>hidden := (hidden s)(id := True)\<rparr>) sections s
      in s1\<lparr>hidden := (hidden s1)(globeContainer := True)\<rparr>)"

text \<open>
  \<open>initGlobe\<close>: the guard and the class change; the scene it then builds is drawing
  only and is left out.
\<close>

definition initGlobe :: "state \<Rightarrow> state" where
  "initGlobe s =
     (if globeStarted s then s
      else s\<lparr>globeStarted := True, hidden := (hidden s)(globeContainer := False)\<rparr>)"

definition showLogin :: "state \<Rightarrow> state" where
  "showLogin s =
     (let s1 = hideAll s
      in initGlobe (s1\<lparr>hidden := (hidden s1)(loginSection := False)\<rparr>))"

definition showRegister :: "state \<Rightarrow> state" where
  "showRegister s =
     (let s1 = hideAll s
      in s1\<lparr>hidden := (hidden s1)(registerSection := False)\<rparr>)"

definition showDashboard :: "state \<Rightarrow> state" where
  "showDashboard s =
     (let s1 = hideAll s
      in s1\<lparr>hidden := (hidden s1)(dashboardSection := False)\<rparr>)"

definition logout :: "state \<Rightarrow> state" where
  "logout s =
     (let s1 = removeItem (js ''token'') s;
          s2 = removeItem (js ''is_admin'') s1;
          s3 = s2\<lparr>adminBtn_display := js ''none''\<rparr>;
          s4 = hideAll s3
      in s4\<lparr>hidden := (hidden s4)(landingSection := False)\<rparr>)"

text \<open>The primary states on display, in the order of \<open>sections\<close>.\<close>

definition visible :: "state \<Rightarrow> elem list" where
  "visible s = filter (\<lambda>e. \<not> hidden s e) sections"

section \<open>Password strength\<close>

definition specials :: jsstring where
  \<open>specials = js ''!@#$%^&*(),.?'' @ [0x22] @ js '':{}|<>''\<close>

definition checks :: "jsstring \<Rightarrow> bool list" where
  "checks p =
     [length p \<ge> 8,
      \<exists>c \<in> set p. 0x41 \<le> c \<and> c \<le> 0x5A,
      \<exists>c \<in> set p. 0x61 \<le> c \<and> c \<le> 0x7A,
      \<exists>c \<in> set p. 0x30 \<le> c \<and> c \<le> 0x39,
      \<exists>c \<in> set p. c \<in> set specials]"

definition ids :: "rule_id list" where
  "ids = [rule_length, rule_upper, rule_lower, rule_number, rule_special]"

text \<open>
  The body of \<open>checks.forEach\<close>: the mark of the rule's line is replaced (U+2705 or
  U+274C and a space, two code units), its colour set, and \<open>score\<close> counted up.
\<close>

fun forEach_checks :: "(bool \<times> rule_id) list \<Rightarrow> state \<Rightarrow> nat \<Rightarrow> state \<times> nat" where
  "forEach_checks [] s score = (s, score)"
| "forEach_checks ((valid, i) # rest) s score =
     (let el = rule s i in
      if valid then
        forEach_checks rest
          (s\<lparr>rule := (rule s)(i := el\<lparr>innerText := [0x2705, 0x20] @ drop 2 (innerText el),
                                        color := js ''limegreen''\<rparr>)\<rparr>)
          (score + 1)
      else
        forEach_checks rest
          (s\<lparr>rule := (rule s)(i := el\<lparr>innerText := [0x274C, 0x20] @ drop 2 (innerText el),
                                        color := js ''red''\<rparr>)\<rparr>)
          score)"

text \<open>The state and the value of \<open>score\<close> when the loop of \<open>checkStrength\<close> is over.\<close>

definition checkStrength_loop :: "state \<Rightarrow> state \<times> nat" where
  "checkStrength_loop s = forEach_checks (zip (checks (regPassword s)) ids) s 0"

definition checkStrength :: "state \<Rightarrow> state" where
  "checkStrength s =
     (let (s1, score) = checkStrength_loop s;
          s2 = s1\<lparr>strengthBar := [js ''strength-bar'']\<rparr>
      in if score \<le> 2 then s2\<lparr>strengthBar := classList_add (js ''weak'') (strengthBar s2)\<rparr>
         else if score \<le> 4 then s2\<lparr>strengthBar := classList_add (js ''medium'') (strengthBar s2)\<rparr>
         else s2\<lparr>strengthBar := classList_add (js ''strong'') (strengthBar s2)\<rparr>)"

section \<open>Backend connection\<close>

text \<open>
  The conversion to a number that \<open>data.score * 10\<close> applies. An array or object
  converts through its string; \<open>None\<close> is the TypeError of that conversion.
\<close>

definition to_number :: "env \<Rightarrow> jsval \<Rightarrow> jsnum option" where
  "to_number env v =
     (case v of
        JUndefined \<Rightarrow> Some NaN
      | JNull \<Rightarrow> Some (Num 0)
      | JBool b \<Rightarrow> Some (Num (if b then 1 else 0))
      | JNum i \<Rightarrow> Some (Num i)
      | JStr s \<Rightarrow> Some (StringToNumber env s)
      | _ \<Rightarrow> (case to_string v of None \<Rightarrow> None | Some s \<Rightarrow> Some (StringToNumber env s)))"

fun times_num :: "jsnum \<Rightarrow> int \<Rightarrow> jsnum" where
  "times_num (Num i) k = Num (i * k)"
| "times_num NaN k = NaN"

fun Math_min :: "jsnum \<Rightarrow> int \<Rightarrow> jsnum" where
  "Math_min (Num i) k = Num (min i k)"
| "Math_min NaN k = NaN"

definition log_event :: "event \<Rightarrow> state \<Rightarrow> state" where
  "log_event e s = s\<lparr>events := events s @ [e]\<rparr>"

text \<open>
  The body of a \<open>try\<close> block ends normally in a state (\<open>Inr\<close>) or throws (\<open>Inl\<close>)
  with the state reached at the throw: what was done before it stays done.
\<close>

type_synonym outcome = "(exn \<times> state) + state"

subsection \<open>Register\<close>

definition register_request :: "jsstring \<Rightarrow> jsstring \<Rightarrow> request" where
  "register_request u p =
     \<lparr>url = API @ js ''/register?username='' @ u @ js ''&password='' @ p,
      req_method = js ''POST'', headers = [], body = None\<rparr>"

definition register_try :: "env \<Rightarrow> jsstring \<Rightarrow> jsstring \<Rightarrow> state \<Rightarrow> outcome" where
  "register_try env username password s =
     (case encodeURIComponent env username of None \<Rightarrow> Inl (URIError, s)
      | Some u \<Rightarrow>
     (case encodeURIComponent env password of None \<Rightarrow> Inl (URIError, s)
      | Some p \<Rightarrow>
        let s1 = log_event (Fetch (register_request u p)) s in
        (case fetch env (register_request u p) of None \<Rightarrow> Inl (FetchRejected, s1)
         | Some response \<Rightarrow>
           let s2 = log_event ReadJson s1 in
           (case json response of None \<Rightarrow> Inl (SyntaxError, s2)
            | Some data \<Rightarrow>
              if ok response then
                Inr (showLogin (alert (js ''Registered Successfully '' @ [0x2705]) s2))
              else
                (case get_prop data (js ''detail'') of None \<Rightarrow> Inl (TypeError, s2)
                 | Some (JStr m) \<Rightarrow> Inr (alert m s2)
                 | Some JUndefined \<Rightarrow> Inr (alert (js ''undefined'') s2)
                 | Some d \<Rightarrow> Inr (alert (JSON_stringify env d) s2))))))"

definition register :: "env \<Rightarrow> state \<Rightarrow> state" where
  "register env s =
     (let username = regUsername s; password = regPassword s in
      if username = [] \<or> password = [] then alert (js ''Please fill all fields'') s
      else
        (case register_try env username password s of
           Inr s' \<Rightarrow> s'
         | Inl (error, s') \<Rightarrow> alert (js ''Server not running'') (console_error error s')))"

subsection \<open>Login\<close>

definition login_request :: "jsstring \<Rightarrow> jsstring \<Rightarrow> request" where
  "login_request u p =
     \<lparr>url = API @ js ''/login?username='' @ u @ js ''&password='' @ p,
      req_method = js ''POST'', headers = [], body = None\<rparr>"

text \<open>The branch of \<open>login\<close> for \<open>response.ok\<close>.\<close>

definition login_ok :: "jsval \<Rightarrow> state \<Rightarrow> outcome" where
  "login_ok data s =
     (case get_prop data (js ''access_token'') of None \<Rightarrow> Inl (TypeError, s)
      | Some access_token \<Rightarrow>
     (case to_string access_token of None \<Rightarrow> Inl (TypeError, s)
      | Some t \<Rightarrow>
        let s1 = setItem (js ''token'') t s in
        (case get_prop data (js ''is_admin'') of None \<Rightarrow> Inl (TypeError, s1)
         | Some is_admin \<Rightarrow>
        (case to_string is_admin of None \<Rightarrow> Inl (TypeError, s1)
         | Some a \<Rightarrow>
           let s2 = setItem (js ''is_admin'') a s1;
               s3 = (if is_admin = JBool True
                     then s2\<lparr>adminBtn_display := js ''inline-block''\<rparr>
                     else s2\<lparr>adminBtn_display := js ''none''\<rparr>);
               s4 = alert (js ''Login successful '' @ [0xD83D, 0xDE80]) s3
           in Inr (showDashboard s4)))))"

definition login_try :: "env \<Rightarrow> jsstring \<Rightarrow> jsstring \<Rightarrow> state \<Rightarrow> outcome" where
  "login_try env username password s =
     (case encodeURIComponent env username of None \<Rightarrow> Inl (URIError, s)
      | Some u \<Rightarrow>
     (case encodeURIComponent env password of None \<Rightarrow> Inl (URIError, s)
      | Some p \<Rightarrow>
        let s1 = log_event (Fetch (login_request u p)) s in
        (case fetch env (login_request u p) of None \<Rightarrow> Inl (FetchRejected, s1)
         | Some response \<Rightarrow>
           if status response = 429 then
             Inr (alert (js ''Too many requests. Try again later.'') s1)
           else
             let s2 = log_event ReadJson s1 in
             (case json response of None \<Rightarrow> Inl (SyntaxError, s2)
              | Some data \<Rightarrow>
                if ok response then login_ok data s2
                else
                  (case get_prop data (js ''detail'') of None \<Rightarrow> Inl (TypeError, s2)
                   | Some detail \<Rightarrow>
                  (case to_string detail of None \<Rightarrow> Inl (TypeError, s2)
                   | Some m \<Rightarrow> Inr (alert m s2)))))))"

definition login :: "env \<Rightarrow> state \<Rightarrow> state" where
  "login env s =
     (let username = loginUsername s; password = loginPassword s in
      if username = [] \<or> password = [] then alert (js ''Please fill all fields'') s
      else
        (case login_try env username password s of
           Inr s' \<Rightarrow> s'
         | Inl (error, s') \<Rightarrow> alert (js ''Server not running'') (console_error error s')))"

subsection \<open>Analyze\<close>

definition analyze_request :: "env \<Rightarrow> jsstring \<Rightarrow> jsstring \<Rightarrow> request" where
  "analyze_request env msg token =
     \<lparr>url = API @ js ''/analyze'',
      req_method = js ''POST'',
      headers = [(js ''Content-Type'', js ''application/json''),
                 (js ''Authorization'', js ''Bearer '' @ token)],
      body = Some (JSON_stringify env
               (JObj [(js ''text'', JStr msg), (js ''user_id'', JStr (js ''temp''))]))\<rparr>"

text \<open>
  The part of \<open>analyzeMessage\<close> after the warning: the result is shown and the meter
  set. \<open>riskMeter_width\<close> is the string assigned to \<open>style.width\<close>.
\<close>

definition show_result :: "env \<Rightarrow> jsval \<Rightarrow> state \<Rightarrow> outcome" where
  "show_result env data s =
     (let s1 = s\<lparr>hidden := (hidden s)(result := False)\<rparr> in
      case get_prop data (js ''risk_level'') of None \<Rightarrow> Inl (TypeError, s1)
      | Some risk_level \<Rightarrow>
     (case inner_text risk_level of None \<Rightarrow> Inl (TypeError, s1)
      | Some r \<Rightarrow>
        let s2 = s1\<lparr>risk_innerText := r\<rparr> in
        (case get_prop data (js ''score'') of None \<Rightarrow> Inl (TypeError, s2)
         | Some score \<Rightarrow>
        (case inner_text score of None \<Rightarrow> Inl (TypeError, s2)
         | Some sc \<Rightarrow>
           let s3 = s2\<lparr>score_innerText := sc\<rparr> in
           (case get_prop data (js ''action'') of None \<Rightarrow> Inl (TypeError, s3)
            | Some action \<Rightarrow>
           (case inner_text action of None \<Rightarrow> Inl (TypeError, s3)
            | Some a \<Rightarrow>
              let s4 = s3\<lparr>action_innerText := a\<rparr> in
              (case to_number env score of None \<Rightarrow> Inl (TypeError, s4)
               | Some n \<Rightarrow>
                 Inr (s4\<lparr>riskMeter_width :=
                            show_num (Math_min (times_num n 10) 100) @ js ''%''\<rparr>))))))))"

definition analyze_try :: "env \<Rightarrow> jsstring \<Rightarrow> jsstring \<Rightarrow> state \<Rightarrow> outcome" where
  "analyze_try env msg token s =
     (let s1 = log_event (Fetch (analyze_request env msg token)) s in
      case fetch env (analyze_request env msg token) of None \<Rightarrow> Inl (FetchRejected, s1)
      | Some response \<Rightarrow>
        let s2 = log_event ReadJson s1 in
        (case json response of None \<Rightarrow> Inl (SyntaxError, s2)
         | Some data \<Rightarrow>
           if \<not> ok response then
             (case get_prop data (js ''detail'') of None \<Rightarrow> Inl (TypeError, s2)
              | Some detail \<Rightarrow>
             (case to_string detail of None \<Rightarrow> Inl (TypeError, s2)
              | Some m \<Rightarrow> Inr (alert m s2)))
           else
             (case get_prop data (js ''warning'') of None \<Rightarrow> Inl (TypeError, s2)
              | Some warning \<Rightarrow>
                if to_boolean warning then
                  (case to_string warning of None \<Rightarrow> Inl (TypeError, s2)
                   | Some w \<Rightarrow> show_result env data (alert w s2))
                else show_result env data s2)))"

definition analyzeMessage :: "env \<Rightarrow> state \<Rightarrow> state" where
  "analyzeMessage env s =
     (let msg = message s; token = localStorage s (js ''token'') in
      if msg = [] then alert (js ''Please enter a message'') s
      else
        (case token of None \<Rightarrow> alert (js ''Please login first'') s
         | Some t \<Rightarrow>
           if t = [] then alert (js ''Please login first'') s
           else
             (case analyze_try env msg t s of
                Inr s' \<Rightarrow> s'
              | Inl (error, s') \<Rightarrow> alert (js ''Server error'') (console_error error s'))))"

section \<open>Reading the event log\<close>

text \<open>The requests handed to \<open>fetch\<close>, the dialogs shown, and the number of body reads.\<close>

definition requests :: "state \<Rightarrow> request list" where
  "requests s = concat (map (\<lambda>e. case e of Fetch r \<Rightarrow> [r] | _ \<Rightarrow> []) (events s))"

definition alerts :: "state \<Rightarrow> jsstring list" where
  "alerts s = concat (map (\<lambda>e. case e of Alert m \<Rightarrow> [m] | _ \<Rightarrow> []) (events s))"

definition body_reads :: "state \<Rightarrow> nat" where
  "body_reads s = length (filter (\<lambda>e. e = ReadJson) (events s))"

text \<open>The state in which a \<open>try\<close> block is left, whichever way it ends.\<close>

definition final :: "outcome \<Rightarrow> state" where
  "final out = (case out of Inr s' \<Rightarrow> s' | Inl (e, s') \<Rightarrow> s')"

section \<open>Example pages and servers\<close>

text \<open>
  A freshly loaded page: nothing typed, nothing stored, the landing section on display.
  \<open>server r\<close> answers every request with \<open>r\<close>; its \<open>encodeURIComponent\<close> is the
  identity, which is what the function is on the unreserved characters the examples use,
  and its \<open>JSON.stringify\<close> gives the body of the one analyze request of the examples.
\<close>

definition page0 :: state where
  "page0 =
     \<lparr>regUsername = [], regPassword = [], loginUsername = [], loginPassword = [],
      message = [], localStorage = Map.empty,
      hidden = (\<lambda>e. e \<noteq> landingSection), globeStarted = False,
      adminBtn_display = js ''none'',
      rule = (\<lambda>i. \<lparr>innerText = [0x274C, 0x20], color = js ''red''\<rparr>),
      strengthBar = [js ''strength-bar''],
      risk_innerText = [], score_innerText = [], action_innerText = [],
      riskMeter_width = js ''0%'', events = []\<rparr>"

definition server :: "response option \<Rightarrow> env" where
  \<open>server r =
     \<lparr>fetch = (\<lambda>req. r), encodeURIComponent = Some,
      JSON_stringify = (\<lambda>v. js ''{"text":"hello","user_id":"temp"}''),
      StringToNumber = (\<lambda>s. NaN)\<rparr>\<close>

definition login_page :: state where
  "login_page = page0\<lparr>loginUsername := js ''alice'', loginPassword := js ''s3cret''\<rparr>"

definition admin_body :: jsval where
  "admin_body = JObj [(js ''access_token'', JStr (js ''abc'')), (js ''is_admin'', JBool True)]"

text \<open>A page with a session stored and a message typed; a body for an analyze response.\<close>

definition analyze_page :: state where
  "analyze_page =
     page0\<lparr>message := js ''hello'',
           localStorage := [js ''token'' \<mapsto> js ''abc'', js ''is_admin'' \<mapsto> js ''true'']\<rparr>"


text \<open>
  A login body whose \<open>is_admin\<close> is an object with a property \<open>toString\<close>, and the
  page after a login that received it.
\<close>

definition half_body :: jsval where
  "half_body = JObj [(js ''access_token'', JStr (js ''abc'')),
                     (js ''is_admin'', JObj [(js ''toString'', JNull)])]"

definition half_written :: state where
  "half_written = login (server (Some \<lparr>status = 200, json = Some half_body\<rparr>)) login_page"

text \<open>A page whose storage holds a token and no \<open>is_admin\<close> entry when it is loaded.\<close>

definition token_only :: state where
  "token_only = page0\<lparr>message := js ''hello'', localStorage := [js ''token'' \<mapsto> js ''abc'']\<rparr>"

section \<open>Lemmas on the page switch and the event log\<close>

lemma hideAll_eq: "hideAll s = s\<lparr>hidden := (\<lambda>e. e \<noteq> result \<or> hidden s result)\<rparr>"
proof -
  have "(hidden s)(landingSection := True, registerSection := True, loginSection := True,
      dashboardSection := True, globeContainer := True) = (\<lambda>e. e \<noteq> result \<or> hidden s result)"
    by (rule ext) (case_tac e; simp)
  then show ?thesis by (simp add: hideAll_def sections_def)
qed

lemma showDashboard_eq:
  "showDashboard s =
     s\<lparr>hidden := (\<lambda>e. e \<noteq> dashboardSection \<and> (e \<noteq> result \<or> hidden s result))\<rparr>"
  by (auto simp add: showDashboard_def hideAll_eq fun_eq_iff)


lemma showDashboard_fields:
  "localStorage (showDashboard s) = localStorage s"
  "adminBtn_display (showDashboard s) = adminBtn_display s"
  "events (showDashboard s) = events s"
  by (simp_all add: showDashboard_eq)

lemma requests_simps:
  "requests (alert m s) = requests s"
  "requests (console_error e s) = requests s"
  "requests (log_event ReadJson s) = requests s"
  "requests (log_event (Fetch r) s) = requests s @ [r]"
  by (simp_all add: requests_def alert_def console_error_def log_event_def)

lemma alerts_simps:
  "alerts (alert m s) = alerts s @ [m]"
  "alerts (console_error e s) = alerts s"
  "alerts (log_event ReadJson s) = alerts s"
  "alerts (log_event (Fetch r) s) = alerts s"
  by (simp_all add: alerts_def alert_def console_error_def log_event_def)

lemma localStorage_simps:
  "localStorage (alert m s) = localStorage s"
  "localStorage (console_error e s) = localStorage s"
  "localStorage (log_event ev s) = localStorage s"
  by (simp_all add: alert_def console_error_def log_event_def)

section \<open>Page switch: one section on display\<close>

text \<open>
  C9. After each of the four transitions (\<open>showLogin\<close>, \<open>showRegister\<close>,
  \<open>showDashboard\<close>, and \<open>logout\<close> back to the landing section), exactly one of the
  four primary sections is on display, the one entered, and the other three are hidden,
  whatever was on display before.
\<close>

theorem one_section_visible_after_transition:
  "visible (showLogin s) = [loginSection]
   \<and> visible (showRegister s) = [registerSection]
   \<and> visible (showDashboard s) = [dashboardSection]
   \<and> visible (logout s) = [landingSection]"
  by (simp add: visible_def showLogin_def showRegister_def showDashboard_def logout_def
      initGlobe_def hideAll_def sections_def Let_def)

theorem one_section_visible_after_transition_witness:
  "visible (showLogin page0) = [loginSection]
   \<and> visible (showRegister page0) = [registerSection]
   \<and> visible (showDashboard page0) = [dashboardSection]
   \<and> visible (logout (showDashboard page0)) = [landingSection]"
  using one_section_visible_after_transition [of page0]
    one_section_visible_after_transition [of "showDashboard page0"]
  by simp

section \<open>Password strength\<close>

lemma forEach_score: "snd (forEach_checks bs s n) = n + length (filter fst bs)"
  by (induction bs s n rule: forEach_checks.induct) (simp_all add: Let_def)

lemma count5:
  "length (filter fst [(a, i1), (b, i2), (c, i3), (d, i4), (e, i5)]) =
     (if a then 1 else 0) + (if b then 1 else 0) + (if c then 1 else 0)
     + (if d then 1 else 0) + (if e then 1 else (0::nat))"
  by simp

lemma loop_score:
  "snd (checkStrength_loop s) =
     (if 8 \<le> length (regPassword s) then 1 else 0)
     + (if \<exists>c \<in> set (regPassword s). 0x41 \<le> c \<and> c \<le> 0x5A then 1 else 0)
     + (if \<exists>c \<in> set (regPassword s). 0x61 \<le> c \<and> c \<le> 0x7A then 1 else 0)
     + (if \<exists>c \<in> set (regPassword s). 0x30 \<le> c \<and> c \<le> 0x39 then 1 else 0)
     + (if \<exists>c \<in> set (regPassword s). c \<in> set specials then 1 else 0)"
  unfolding checkStrength_loop_def forEach_score checks_def ids_def
  by (simp only: zip_Cons_Cons zip_Nil count5 add_0)

lemma loop_score_le: "snd (checkStrength_loop s) \<le> 5"
  unfolding loop_score by simp

lemma strengthBar_checkStrength:
  "strengthBar (checkStrength s) =
     [js ''strength-bar'',
      if snd (checkStrength_loop s) \<le> 2 then js ''weak''
      else if snd (checkStrength_loop s) \<le> 4 then js ''medium'' else js ''strong'']"
  by (cases "checkStrength_loop s")
    (simp add: checkStrength_def classList_add_def js_def Let_def)

text \<open>
  C5. \<open>checkStrength\<close> is a function of the password field: it has a result for every
  string and the same result each time. The value of \<open>score\<close> after its loop is the
  number of the five rules that hold of the password: at least eight code units, a
  character of \<open>A-Z\<close>, one of \<open>a-z\<close>, one of \<open>0-9\<close>, one of the punctuation set. The
  bar is given the class \<open>weak\<close> exactly when the score is at most 2, \<open>medium\<close> exactly
  when it is 3 or 4, \<open>strong\<close> exactly when it is 5.
\<close>

theorem checkStrength_score_and_tier:
  "snd (checkStrength_loop s) =
     (if 8 \<le> length (regPassword s) then 1 else 0)
     + (if \<exists>c \<in> set (regPassword s). 0x41 \<le> c \<and> c \<le> 0x5A then 1 else 0)
     + (if \<exists>c \<in> set (regPassword s). 0x61 \<le> c \<and> c \<le> 0x7A then 1 else 0)
     + (if \<exists>c \<in> set (regPassword s). 0x30 \<le> c \<and> c \<le> 0x39 then 1 else 0)
     + (if \<exists>c \<in> set (regPassword s). c \<in> set specials then 1 else 0)
   \<and> strengthBar (checkStrength s) =
       [js ''strength-bar'',
        if snd (checkStrength_loop s) \<le> 2 then js ''weak''
        else if snd (checkStrength_loop s) \<le> 4 then js ''medium'' else js ''strong'']
   \<and> (js ''weak'' \<in> set (strengthBar (checkStrength s)) \<longleftrightarrow>
        snd (checkStrength_loop s) \<le> 2)
   \<and> (js ''medium'' \<in> set (strengthBar (checkStrength s)) \<longleftrightarrow>
        snd (checkStrength_loop s) = 3 \<or> snd (checkStrength_loop s) = 4)
   \<and> (js ''strong'' \<in> set (strengthBar (checkStrength s)) \<longleftrightarrow>
        snd (checkStrength_loop s) = 5)"
proof -
  have d: "js ''weak'' \<noteq> js ''strength-bar''" "js ''medium'' \<noteq> js ''strength-bar''"
    "js ''strong'' \<noteq> js ''strength-bar''" "js ''weak'' \<noteq> js ''medium''"
    "js ''weak'' \<noteq> js ''strong''" "js ''medium'' \<noteq> js ''strong''"
    by (simp_all add: js_def)
  have le: "snd (checkStrength_loop s) \<le> 5" by (rule loop_score_le)
  have w: "js ''weak'' \<in> set (strengthBar (checkStrength s)) \<longleftrightarrow>
        snd (checkStrength_loop s) \<le> 2"
    using d by (simp add: strengthBar_checkStrength)
  have m: "js ''medium'' \<in> set (strengthBar (checkStrength s)) \<longleftrightarrow>
        snd (checkStrength_loop s) = 3 \<or> snd (checkStrength_loop s) = 4"
    using d by (auto simp add: strengthBar_checkStrength)
  have st: "js ''strong'' \<in> set (strengthBar (checkStrength s)) \<longleftrightarrow>
        snd (checkStrength_loop s) = 5"
    using d le by (auto simp add: strengthBar_checkStrength)
  from w m st show ?thesis
    using loop_score [of s] strengthBar_checkStrength [of s] by blast
qed

theorem checkStrength_score_and_tier_witness:
  "snd (checkStrength_loop (page0\<lparr>regPassword := js ''Abcdef1!''\<rparr>)) = 5
   \<and> strengthBar (checkStrength (page0\<lparr>regPassword := js ''Abcdef1!''\<rparr>)) =
       [js ''strength-bar'', js ''strong'']
   \<and> snd (checkStrength_loop (page0\<lparr>regPassword := js ''abcdefgh''\<rparr>)) = 2
   \<and> strengthBar (checkStrength (page0\<lparr>regPassword := js ''abcdefgh''\<rparr>)) =
       [js ''strength-bar'', js ''weak'']
   \<and> snd (checkStrength_loop (page0\<lparr>regPassword := js ''Abcdefgh''\<rparr>)) = 3
   \<and> strengthBar (checkStrength (page0\<lparr>regPassword := js ''Abcdefgh''\<rparr>)) =
       [js ''strength-bar'', js ''medium'']"
  using checkStrength_score_and_tier [of "page0\<lparr>regPassword := js ''Abcdef1!''\<rparr>"]
    checkStrength_score_and_tier [of "page0\<lparr>regPassword := js ''abcdefgh''\<rparr>"]
    checkStrength_score_and_tier [of "page0\<lparr>regPassword := js ''Abcdefgh''\<rparr>"]
  by (simp add: page0_def specials_def js_def)

section \<open>Register and login\<close>

text \<open>
  C7. A \<open>register\<close> or \<open>login\<close> call with an empty username or an empty password
  ends at the local check: the dialog \<open>Please fill all fields\<close> is all it does, and
  no request is handed to \<open>fetch\<close>.
\<close>

theorem empty_credentials_rejected_locally:
  "(regUsername s = [] \<or> regPassword s = [] \<longrightarrow>
      register env s = alert (js ''Please fill all fields'') s
      \<and> requests (register env s) = requests s)
   \<and> (loginUsername s = [] \<or> loginPassword s = [] \<longrightarrow>
      login env s = alert (js ''Please fill all fields'') s
      \<and> requests (login env s) = requests s)"
  by (simp add: register_def login_def alert_def requests_def)

theorem empty_credentials_rejected_locally_witness:
  "register (server None) (page0\<lparr>regPassword := js ''x''\<rparr>) =
      alert (js ''Please fill all fields'') (page0\<lparr>regPassword := js ''x''\<rparr>)
   \<and> requests (register (server None) (page0\<lparr>regPassword := js ''x''\<rparr>)) = []
   \<and> register (server None) (page0\<lparr>regUsername := js ''x''\<rparr>) =
      alert (js ''Please fill all fields'') (page0\<lparr>regUsername := js ''x''\<rparr>)
   \<and> requests (register (server None) (page0\<lparr>regUsername := js ''x''\<rparr>)) = []
   \<and> login (server None) (page0\<lparr>loginPassword := js ''x''\<rparr>) =
      alert (js ''Please fill all fields'') (page0\<lparr>loginPassword := js ''x''\<rparr>)
   \<and> requests (login (server None) (page0\<lparr>loginPassword := js ''x''\<rparr>)) = []"
  using empty_credentials_rejected_locally [of "page0\<lparr>regPassword := js ''x''\<rparr>" "server None"]
    empty_credentials_rejected_locally [of "page0\<lparr>regUsername := js ''x''\<rparr>" "server None"]
    empty_credentials_rejected_locally [of "page0\<lparr>loginPassword := js ''x''\<rparr>" "server None"]
  by (simp add: page0_def requests_def)



text \<open>
  C2. A \<open>login\<close> call whose response has status 429 shows the dialog
  \<open>Too many requests. Try again later.\<close> and returns: the body of the response is
  not read, the storage (so its \<open>token\<close> and \<open>is_admin\<close> entries) is as before, and
  so is what is on display.
\<close>

theorem login_429_no_body_read:
  assumes "loginUsername s \<noteq> []" and "loginPassword s \<noteq> []"
    and "encodeURIComponent env (loginUsername s) = Some u"
    and "encodeURIComponent env (loginPassword s) = Some p"
    and "fetch env (login_request u p) = Some r" and "status r = 429"
  shows "login env s =
           s\<lparr>events := events s @ [Fetch (login_request u p),
                                   Alert (js ''Too many requests. Try again later.'')]\<rparr>
       \<and> body_reads (login env s) = body_reads s
       \<and> localStorage (login env s) = localStorage s
       \<and> hidden (login env s) = hidden s
       \<and> visible (login env s) = visible s
       \<and> adminBtn_display (login env s) = adminBtn_display s"
proof -
  have "login env s =
           s\<lparr>events := events s @ [Fetch (login_request u p),
                                   Alert (js ''Too many requests. Try again later.'')]\<rparr>"
    using assms by (simp add: login_def login_try_def Let_def alert_def log_event_def)
  then show ?thesis by (simp add: body_reads_def visible_def)
qed

theorem login_429_no_body_read_witness:
  "login (server (Some \<lparr>status = 429, json = None\<rparr>)) login_page =
     login_page\<lparr>events := [Fetch (login_request (js ''alice'') (js ''s3cret'')),
                            Alert (js ''Too many requests. Try again later.'')]\<rparr>
   \<and> body_reads (login (server (Some \<lparr>status = 429, json = None\<rparr>)) login_page) = 0
   \<and> localStorage (login (server (Some \<lparr>status = 429, json = None\<rparr>)) login_page) = Map.empty
   \<and> visible (login (server (Some \<lparr>status = 429, json = None\<rparr>)) login_page) =
      [landingSection]"
  using login_429_no_body_read
    [of login_page "server (Some \<lparr>status = 429, json = None\<rparr>)"
      "js ''alice''" "js ''s3cret''" "\<lparr>status = 429, json = None\<rparr>"]
  by (simp add: login_page_def page0_def server_def body_reads_def visible_def sections_def
      js_def)

section \<open>Analyze\<close>

lemma show_result_frame:
  "requests (final (show_result env data s)) = requests s"
  "localStorage (final (show_result env data s)) = localStorage s"
  by (simp_all add: show_result_def final_def Let_def requests_def split: option.splits)

lemma analyze_try_frame:
  "requests (final (analyze_try env m t s)) = requests s @ [analyze_request env m t]"
  "localStorage (final (analyze_try env m t s)) = localStorage s"
  by (simp_all add: analyze_try_def Let_def final_def [of "Inl x" for x]
      final_def [of "Inr x" for x] show_result_frame requests_simps localStorage_simps
      split: option.splits)

lemma analyzeMessage_run:
  assumes "message s \<noteq> []" and "localStorage s (js ''token'') = Some t" and "t \<noteq> []"
  shows "analyzeMessage env s =
     (case analyze_try env (message s) t s of Inr s' \<Rightarrow> s'
      | Inl (e, s') \<Rightarrow> alert (js ''Server error'') (console_error e s'))"
  using assms by (simp add: analyzeMessage_def)

lemma analyzeMessage_frame:
  assumes "message s \<noteq> []" and "localStorage s (js ''token'') = Some t" and "t \<noteq> []"
  shows "requests (analyzeMessage env s) = requests s @ [analyze_request env (message s) t]"
    and "localStorage (analyzeMessage env s) = localStorage s"
  using analyze_try_frame [of env "message s" t s]
  unfolding analyzeMessage_run [OF assms]
  by (auto simp add: final_def requests_simps localStorage_simps split: sum.splits)

text \<open>
  C4. \<open>analyzeMessage\<close> makes its two local checks, in this order, before any
  request: with an empty message it ends with the dialog \<open>Please enter a message\<close>;
  with a message and no token stored (or an empty one) it ends with the dialog
  \<open>Please login first\<close>; in both cases, and whenever no token is stored, no request
  is handed to \<open>fetch\<close>. A request, one, is issued exactly when the message is not
  empty and a token is stored.
\<close>

theorem analyze_preconditions_before_request:
  "(message s = [] \<longrightarrow>
      analyzeMessage env s = alert (js ''Please enter a message'') s)
   \<and> (message s \<noteq> []
        \<and> (localStorage s (js ''token'') = None \<or> localStorage s (js ''token'') = Some []) \<longrightarrow>
      analyzeMessage env s = alert (js ''Please login first'') s)
   \<and> (message s = [] \<or> localStorage s (js ''token'') = None
        \<or> localStorage s (js ''token'') = Some [] \<longrightarrow>
      requests (analyzeMessage env s) = requests s)
   \<and> (\<forall>t. message s \<noteq> [] \<and> localStorage s (js ''token'') = Some t \<and> t \<noteq> [] \<longrightarrow>
      requests (analyzeMessage env s) = requests s @ [analyze_request env (message s) t])"
proof -
  have a: "message s = [] \<Longrightarrow> analyzeMessage env s = alert (js ''Please enter a message'') s"
    by (simp add: analyzeMessage_def)
  have b: "message s \<noteq> [] \<Longrightarrow>
      localStorage s (js ''token'') = None \<or> localStorage s (js ''token'') = Some [] \<Longrightarrow>
      analyzeMessage env s = alert (js ''Please login first'') s"
    by (auto simp add: analyzeMessage_def)
  have c: "message s = [] \<or> localStorage s (js ''token'') = None
        \<or> localStorage s (js ''token'') = Some [] \<Longrightarrow>
      requests (analyzeMessage env s) = requests s"
    using a b by (cases "message s = []") (auto simp add: requests_simps)
  show ?thesis using a b c analyzeMessage_frame(1) [of s _ env] by blast
qed

theorem analyze_preconditions_before_request_witness:
  "analyzeMessage (server None) page0 = alert (js ''Please enter a message'') page0
   \<and> requests (analyzeMessage (server None) page0) = []
   \<and> analyzeMessage (server None) (page0\<lparr>message := js ''hello''\<rparr>) =
        alert (js ''Please login first'') (page0\<lparr>message := js ''hello''\<rparr>)
   \<and> requests (analyzeMessage (server None) (page0\<lparr>message := js ''hello''\<rparr>)) = []
   \<and> requests (analyzeMessage (server None) analyze_page) =
        [analyze_request (server None) (js ''hello'') (js ''abc'')]"
  using analyze_preconditions_before_request [of page0 "server None"]
    analyze_preconditions_before_request [of "page0\<lparr>message := js ''hello''\<rparr>" "server None"]
    analyze_preconditions_before_request [of analyze_page "server None"]
  by (simp add: page0_def analyze_page_def requests_def js_def)

text \<open>
  C10. In \<open>analyzeMessage\<close> the check of the message comes before the check of the
  token: with an empty message the call ends with the dialog \<open>Please enter a message\<close>
  whether or not a token is stored, so a call that shows the dialog
  \<open>Please login first\<close> had a message that is not empty.
\<close>

theorem empty_message_checked_before_token:
  "(message s = [] \<longrightarrow>
      analyzeMessage env s = alert (js ''Please enter a message'') s
      \<and> alerts (analyzeMessage env s) = alerts s @ [js ''Please enter a message''])
   \<and> (alerts (analyzeMessage env s) = alerts s @ [js ''Please login first''] \<longrightarrow>
      message s \<noteq> [])"
proof -
  have ne: "js ''Please enter a message'' \<noteq> js ''Please login first''"
    by (simp add: js_def)
  have a: "message s = [] \<Longrightarrow> analyzeMessage env s = alert (js ''Please enter a message'') s"
    by (simp add: analyzeMessage_def)
  with ne show ?thesis by (auto simp add: alerts_simps)
qed

theorem empty_message_checked_before_token_witness:
  "localStorage page0 (js ''token'') = None
   \<and> analyzeMessage (server None) page0 = alert (js ''Please enter a message'') page0
   \<and> alerts (analyzeMessage (server None) page0) = [js ''Please enter a message'']
   \<and> alerts (analyzeMessage (server None) (page0\<lparr>message := js ''hello''\<rparr>)) =
        [js ''Please login first'']
   \<and> message (page0\<lparr>message := js ''hello''\<rparr>) \<noteq> []"
proof -
  have e: "message page0 = []" "alerts page0 = []" "localStorage page0 (js ''token'') = None"
    "alerts (page0\<lparr>message := js ''hello''\<rparr>) = []"
    by (simp_all add: page0_def alerts_def)
  have h: "alerts (analyzeMessage (server None) (page0\<lparr>message := js ''hello''\<rparr>)) =
      alerts (page0\<lparr>message := js ''hello''\<rparr>) @ [js ''Please login first'']"
    by (simp add: analyzeMessage_def page0_def alerts_simps js_def)
  from empty_message_checked_before_token [of page0 "server None"] e(1,2)
  have a: "analyzeMessage (server None) page0 = alert (js ''Please enter a message'') page0
      \<and> alerts (analyzeMessage (server None) page0) = [js ''Please enter a message'']"
    by (simp add: alerts_simps)
  from empty_message_checked_before_token [of "page0\<lparr>message := js ''hello''\<rparr>" "server None"] h
  have b: "message (page0\<lparr>message := js ''hello''\<rparr>) \<noteq> []"
    by blast
  from a b e h show ?thesis by (simp add: alerts_simps)
qed

section \<open>Failed calls\<close>

lemma login_unreachable:
  assumes "loginUsername s \<noteq> []" and "loginPassword s \<noteq> []"
    and "encodeURIComponent env (loginUsername s) = Some u"
    and "encodeURIComponent env (loginPassword s) = Some p"
    and "fetch env (login_request u p) = None"
  shows "login env s = alert (js ''Server not running'')
           (console_error FetchRejected (log_event (Fetch (login_request u p)) s))"
  using assms by (simp add: login_def login_try_def Let_def)

lemma login_rejected:
  assumes "loginUsername s \<noteq> []" and "loginPassword s \<noteq> []"
    and "encodeURIComponent env (loginUsername s) = Some u"
    and "encodeURIComponent env (loginPassword s) = Some p"
    and "fetch env (login_request u p) = Some r" and "\<not> ok r"
  shows "localStorage (login env s) = localStorage s"
    and "\<exists>m. alerts (login env s) = alerts s @ [m]"
  using assms
  by (simp_all add: login_def login_try_def Let_def alerts_simps localStorage_simps
      split: option.splits)

lemma analyze_unreachable:
  assumes "message s \<noteq> []" and "localStorage s (js ''token'') = Some t" and "t \<noteq> []"
    and "fetch env (analyze_request env (message s) t) = None"
  shows "analyzeMessage env s = alert (js ''Server error'')
           (console_error FetchRejected
             (log_event (Fetch (analyze_request env (message s) t)) s))"
  using assms by (simp add: analyzeMessage_def analyze_try_def Let_def)

lemma analyze_rejected:
  assumes "message s \<noteq> []" and "localStorage s (js ''token'') = Some t" and "t \<noteq> []"
    and "fetch env (analyze_request env (message s) t) = Some r" and "\<not> ok r"
  shows "\<exists>m. alerts (analyzeMessage env s) = alerts s @ [m]"
  using assms
  by (simp add: analyzeMessage_def analyze_try_def Let_def alerts_simps
      split: option.splits)

text \<open>
  C3. A \<open>login\<close> or \<open>analyzeMessage\<close> call that passes its local checks and then
  fails, because no response is received or because the response is not OK (status 429
  among them), leaves the storage, and so its \<open>token\<close> and \<open>is_admin\<close> entries, as
  it was, and shows one dialog. When no response is received the dialog is a fixed
  text: \<open>Server not running\<close> for login, \<open>Server error\<close> for analyze.
\<close>

theorem failed_call_keeps_session:
  "(loginUsername s \<noteq> [] \<and> loginPassword s \<noteq> []
      \<and> encodeURIComponent env (loginUsername s) = Some u
      \<and> encodeURIComponent env (loginPassword s) = Some p
      \<and> (fetch env (login_request u p) = None
          \<or> (\<exists>r. fetch env (login_request u p) = Some r \<and> (status r = 429 \<or> \<not> ok r))) \<longrightarrow>
    localStorage (login env s) = localStorage s
    \<and> (\<exists>m. alerts (login env s) = alerts s @ [m])
    \<and> (fetch env (login_request u p) = None \<longrightarrow>
          alerts (login env s) = alerts s @ [js ''Server not running'']))
   \<and> (message s \<noteq> [] \<and> localStorage s (js ''token'') = Some t \<and> t \<noteq> []
      \<and> (fetch env (analyze_request env (message s) t) = None
          \<or> (\<exists>r. fetch env (analyze_request env (message s) t) = Some r
                \<and> (status r = 429 \<or> \<not> ok r))) \<longrightarrow>
    localStorage (analyzeMessage env s) = localStorage s
    \<and> (\<exists>m. alerts (analyzeMessage env s) = alerts s @ [m])
    \<and> (fetch env (analyze_request env (message s) t) = None \<longrightarrow>
          alerts (analyzeMessage env s) = alerts s @ [js ''Server error'']))"
proof (intro conjI impI; (elim conjE)?)
  assume h: "loginUsername s \<noteq> []" "loginPassword s \<noteq> []"
    "encodeURIComponent env (loginUsername s) = Some u"
    "encodeURIComponent env (loginPassword s) = Some p"
  {
    assume "fetch env (login_request u p) = None"
    from login_unreachable [OF h this]
    show "alerts (login env s) = alerts s @ [js ''Server not running'']"
      by (simp add: alerts_simps)
  }
  assume "fetch env (login_request u p) = None
      \<or> (\<exists>r. fetch env (login_request u p) = Some r \<and> (status r = 429 \<or> \<not> ok r))"
  then have d: "fetch env (login_request u p) = None
      \<or> (\<exists>r. fetch env (login_request u p) = Some r \<and> \<not> ok r)"
    by (auto simp add: ok_def)
  then show "localStorage (login env s) = localStorage s"
    using login_unreachable [OF h] login_rejected(1) [OF h]
    by (auto simp add: localStorage_simps)
  from d show "\<exists>m. alerts (login env s) = alerts s @ [m]"
    using login_unreachable [OF h] login_rejected(2) [OF h]
    by (auto simp add: alerts_simps)
next
  assume h: "message s \<noteq> []" "localStorage s (js ''token'') = Some t" "t \<noteq> []"
  show "localStorage (analyzeMessage env s) = localStorage s"
    by (rule analyzeMessage_frame(2) [OF h])
  {
    assume "fetch env (analyze_request env (message s) t) = None"
    from analyze_unreachable [OF h this]
    show "alerts (analyzeMessage env s) = alerts s @ [js ''Server error'']"
      by (simp add: alerts_simps)
  }
  assume "fetch env (analyze_request env (message s) t) = None
      \<or> (\<exists>r. fetch env (analyze_request env (message s) t) = Some r
            \<and> (status r = 429 \<or> \<not> ok r))"
  then have d: "fetch env (analyze_request env (message s) t) = None
      \<or> (\<exists>r. fetch env (analyze_request env (message s) t) = Some r \<and> \<not> ok r)"
    by (auto simp add: ok_def)
  then show "\<exists>m. alerts (analyzeMessage env s) = alerts s @ [m]"
    using analyze_unreachable [OF h] analyze_rejected [OF h]
    by (auto simp add: alerts_simps)
qed

theorem failed_call_keeps_session_witness:
  "localStorage (login (server None) login_page) = localStorage login_page
   \<and> alerts (login (server None) login_page) = [js ''Server not running'']
   \<and> localStorage (login (server (Some \<lparr>status = 401, json = None\<rparr>)) login_page) =
       localStorage login_page
   \<and> localStorage (analyzeMessage (server None) analyze_page) = localStorage analyze_page
   \<and> alerts (analyzeMessage (server None) analyze_page) = [js ''Server error'']
   \<and> localStorage (analyzeMessage (server (Some \<lparr>status = 500, json = None\<rparr>)) analyze_page) =
       localStorage analyze_page"
proof -
  have e: "alerts login_page = []" "alerts analyze_page = []"
    by (simp_all add: login_page_def analyze_page_def page0_def alerts_def)
  have l: "loginUsername login_page \<noteq> [] \<and> loginPassword login_page \<noteq> []
      \<and> encodeURIComponent (server r) (loginUsername login_page) = Some (js ''alice'')
      \<and> encodeURIComponent (server r) (loginPassword login_page) = Some (js ''s3cret'')" for r
    by (simp add: login_page_def page0_def server_def js_def)
  have a: "message analyze_page \<noteq> [] \<and> localStorage analyze_page (js ''token'') = Some (js ''abc'')
      \<and> js ''abc'' \<noteq> []"
    by (simp add: analyze_page_def page0_def js_def)
  have f: "fetch (server r) q = r" "ok \<lparr>status = 401, json = None\<rparr> = False"
    "ok \<lparr>status = 500, json = None\<rparr> = False" for r q
    by (simp_all add: server_def ok_def)
  show ?thesis
    using failed_call_keeps_session
      [where s = login_page and env = "server None" and u = "js ''alice''" and p = "js ''s3cret''"]
      failed_call_keeps_session
      [where s = login_page and env = "server (Some \<lparr>status = 401, json = None\<rparr>)"
        and u = "js ''alice''" and p = "js ''s3cret''"]
      failed_call_keeps_session
      [where s = analyze_page and env = "server None" and t = "js ''abc''"]
      failed_call_keeps_session
      [where s = analyze_page and env = "server (Some \<lparr>status = 500, json = None\<rparr>)"
        and t = "js ''abc''"]
      l a
    by (simp add: f e)
qed





section \<open>The two entries of the session\<close>

lemma get_prop_None: "(get_prop data k = None) = (data = JUndefined \<or> data = JNull)"
  by (cases data) simp_all

lemma login_ok_paired:
  assumes "(localStorage s (js ''token'') = None) = (localStorage s (js ''is_admin'') = None)"
    and "\<forall>v. get_prop data (js ''is_admin'') = Some v \<longrightarrow> to_string v \<noteq> None"
  shows "(localStorage (final (login_ok data s)) (js ''token'') = None) =
         (localStorage (final (login_ok data s)) (js ''is_admin'') = None)"
  using assms
  by (auto simp add: login_ok_def final_def Let_def setItem_def showDashboard_fields
      localStorage_simps get_prop_None split: option.splits)

lemma login_try_paired:
  assumes "(localStorage s (js ''token'') = None) = (localStorage s (js ''is_admin'') = None)"
    and "\<forall>u p r data v.
           encodeURIComponent env un = Some u \<and> encodeURIComponent env pw = Some p
           \<and> fetch env (login_request u p) = Some r \<and> ok r \<and> json r = Some data
           \<and> get_prop data (js ''is_admin'') = Some v \<longrightarrow> to_string v \<noteq> None"
  shows "(localStorage (final (login_try env un pw s)) (js ''token'') = None) =
         (localStorage (final (login_try env un pw s)) (js ''is_admin'') = None)"
proof -
  have other: "\<And>x. localStorage (final (Inl (x, s'))) = localStorage s'"
    "localStorage (final (Inr s')) = localStorage s'" for s'
    by (simp_all add: final_def)
  show ?thesis
    using assms login_ok_paired
    by (simp add: login_try_def Let_def other localStorage_simps split: option.splits)
qed

lemma caught_localStorage:
  "localStorage (case out of Inr s' \<Rightarrow> s' | Inl (e, s') \<Rightarrow> alert m (console_error e s')) =
     localStorage (final out)"
  by (simp add: final_def localStorage_simps split: sum.splits prod.splits)

lemma login_final:
  "localStorage (login env s) =
     (if loginUsername s = [] \<or> loginPassword s = [] then localStorage s
      else localStorage (final (login_try env (loginUsername s) (loginPassword s) s)))"
  by (simp add: login_def Let_def caught_localStorage localStorage_simps)

lemma register_localStorage: "localStorage (register env s) = localStorage s"
proof -
  have sl: "localStorage (showLogin s') = localStorage s'" for s'
    by (simp add: showLogin_def initGlobe_def hideAll_eq Let_def)
  have "localStorage (final (register_try env un pw s)) = localStorage s" for un pw
    by (simp add: register_try_def Let_def final_def sl localStorage_simps
        split: option.splits jsval.splits)
  then show ?thesis
    by (simp add: register_def Let_def caught_localStorage localStorage_simps)
qed

lemma analyzeMessage_localStorage: "localStorage (analyzeMessage env s) = localStorage s"
proof (cases "message s \<noteq> [] \<and> (\<exists>t. localStorage s (js ''token'') = Some t \<and> t \<noteq> [])")
  case True
  then show ?thesis using analyzeMessage_frame(2) by blast
next
  case False
  then show ?thesis
    by (auto simp add: analyzeMessage_def Let_def localStorage_simps split: option.splits)
qed

lemma half_written_eq:
  "half_written = login_page\<lparr>localStorage := [js ''token'' \<mapsto> js ''abc''],
      events := [Fetch (login_request (js ''alice'') (js ''s3cret'')), ReadJson,
                 ConsoleError TypeError, Alert (js ''Server not running'')]\<rparr>"
  by (simp add: half_written_def half_body_def login_def login_try_def login_ok_def Let_def
      login_page_def page0_def server_def ok_def own_prop_def setItem_def alert_def
      console_error_def log_event_def js_def)

text \<open>
  C6, as the code has it. From a storage in which \<open>token\<close> and \<open>is_admin\<close> are
  both present or both absent: \<open>logout\<close> removes both; \<open>register\<close> and
  \<open>analyzeMessage\<close> leave the storage as it is; \<open>login\<close> writes both, so that both
  are present or both absent afterwards, provided that the \<open>is_admin\<close> value of an OK
  response converts to a string (\<open>login\<close> stores the token first and converts
  \<open>is_admin\<close> after). In such a storage \<open>analyzeMessage\<close>, given a message, treats
  the absence of either entry as no session: it shows \<open>Please login first\<close>. It
  reads the \<open>token\<close> entry only.
\<close>

theorem session_entries_kept_together:
  assumes "(localStorage s (js ''token'') = None) = (localStorage s (js ''is_admin'') = None)"
  shows "localStorage (logout s) (js ''token'') = None
       \<and> localStorage (logout s) (js ''is_admin'') = None
       \<and> localStorage (register env s) = localStorage s
       \<and> localStorage (analyzeMessage env s) = localStorage s
       \<and> ((\<forall>u p r data v.
              encodeURIComponent env (loginUsername s) = Some u
              \<and> encodeURIComponent env (loginPassword s) = Some p
              \<and> fetch env (login_request u p) = Some r \<and> ok r \<and> json r = Some data
              \<and> get_prop data (js ''is_admin'') = Some v \<longrightarrow> to_string v \<noteq> None) \<longrightarrow>
            (localStorage (login env s) (js ''token'') = None) =
            (localStorage (login env s) (js ''is_admin'') = None))
       \<and> (message s \<noteq> []
            \<and> (localStorage s (js ''token'') = None
                \<or> localStorage s (js ''is_admin'') = None) \<longrightarrow>
            analyzeMessage env s = alert (js ''Please login first'') s)"
proof -
  have lo: "localStorage (logout s) (js ''token'') = None
       \<and> localStorage (logout s) (js ''is_admin'') = None"
    by (simp add: logout_def removeItem_def hideAll_eq Let_def)
  have li: "(\<forall>u p r data v.
              encodeURIComponent env (loginUsername s) = Some u
              \<and> encodeURIComponent env (loginPassword s) = Some p
              \<and> fetch env (login_request u p) = Some r \<and> ok r \<and> json r = Some data
              \<and> get_prop data (js ''is_admin'') = Some v \<longrightarrow> to_string v \<noteq> None) \<Longrightarrow>
            (localStorage (login env s) (js ''token'') = None) =
            (localStorage (login env s) (js ''is_admin'') = None)"
    using assms login_try_paired [OF assms, of env "loginUsername s" "loginPassword s"]
    by (simp add: login_final)
  have an: "message s \<noteq> []
            \<and> (localStorage s (js ''token'') = None
                \<or> localStorage s (js ''is_admin'') = None) \<Longrightarrow>
            analyzeMessage env s = alert (js ''Please login first'') s"
    using assms by (auto simp add: analyzeMessage_def)
  show ?thesis
    using lo li an register_localStorage analyzeMessage_localStorage by blast
qed

theorem session_entries_kept_together_witness:
  "localStorage (logout (login_page\<lparr>message := js ''hello''\<rparr>)) (js ''token'') = None
   \<and> localStorage (logout (login_page\<lparr>message := js ''hello''\<rparr>)) (js ''is_admin'') = None
   \<and> (localStorage (login (server (Some \<lparr>status = 200, json = Some admin_body\<rparr>))
          (login_page\<lparr>message := js ''hello''\<rparr>)) (js ''token'') = None) =
      (localStorage (login (server (Some \<lparr>status = 200, json = Some admin_body\<rparr>))
          (login_page\<lparr>message := js ''hello''\<rparr>)) (js ''is_admin'') = None)
   \<and> analyzeMessage (server (Some \<lparr>status = 200, json = Some admin_body\<rparr>))
        (login_page\<lparr>message := js ''hello''\<rparr>) =
      alert (js ''Please login first'') (login_page\<lparr>message := js ''hello''\<rparr>)"
proof -
  have p: "(localStorage (login_page\<lparr>message := js ''hello''\<rparr>) (js ''token'') = None) =
      (localStorage (login_page\<lparr>message := js ''hello''\<rparr>) (js ''is_admin'') = None)"
    "localStorage (login_page\<lparr>message := js ''hello''\<rparr>) (js ''token'') = None"
    "message (login_page\<lparr>message := js ''hello''\<rparr>) \<noteq> []"
    by (simp_all add: login_page_def page0_def js_def)
  have c: "\<forall>u p r data v.
      encodeURIComponent (server (Some \<lparr>status = 200, json = Some admin_body\<rparr>))
        (loginUsername (login_page\<lparr>message := js ''hello''\<rparr>)) = Some u
      \<and> encodeURIComponent (server (Some \<lparr>status = 200, json = Some admin_body\<rparr>))
        (loginPassword (login_page\<lparr>message := js ''hello''\<rparr>)) = Some p
      \<and> fetch (server (Some \<lparr>status = 200, json = Some admin_body\<rparr>)) (login_request u p) = Some r
      \<and> ok r \<and> json r = Some data
      \<and> get_prop data (js ''is_admin'') = Some v \<longrightarrow> to_string v \<noteq> None"
    by (auto simp add: server_def admin_body_def own_prop_def js_def)
  from session_entries_kept_together
    [OF p(1), of "server (Some \<lparr>status = 200, json = Some admin_body\<rparr>)"] c p(2,3)
  show ?thesis by blast
qed

text \<open>
  The claim C6 as the specification states it fails on this code. A login from the
  fresh page whose OK response carries \<open>half_body\<close> stores the token and then throws on
  the conversion of \<open>is_admin\<close>: the page is left with a \<open>token\<close> entry and no
  \<open>is_admin\<close> entry. On that page \<open>analyzeMessage\<close> issues its request: the absence
  of the \<open>is_admin\<close> entry is not treated as no session. The same holds of a page
  that finds such a storage when it is loaded.
\<close>

theorem session_half_written:
  "localStorage login_page = Map.empty
   \<and> localStorage half_written (js ''token'') = Some (js ''abc'')
   \<and> localStorage half_written (js ''is_admin'') = None
   \<and> requests (analyzeMessage (server None) (half_written\<lparr>message := js ''hello''\<rparr>)) =
       requests half_written @ [analyze_request (server None) (js ''hello'') (js ''abc'')]
   \<and> analyzeMessage (server None) (half_written\<lparr>message := js ''hello''\<rparr>) \<noteq>
       alert (js ''Please login first'') (half_written\<lparr>message := js ''hello''\<rparr>)
   \<and> localStorage token_only (js ''is_admin'') = None
   \<and> requests (analyzeMessage (server None) token_only) =
       [analyze_request (server None) (js ''hello'') (js ''abc'')]"
proof -
  have t: "localStorage token_only (js ''is_admin'') = None"
    "localStorage token_only (js ''token'') = Some (js ''abc'')"
    "message token_only = js ''hello''" "requests token_only = []"
    by (simp_all add: token_only_def page0_def requests_def js_def)
  have u: "requests (analyzeMessage (server None) token_only) =
       [analyze_request (server None) (js ''hello'') (js ''abc'')]"
    using analyzeMessage_frame(1) [of token_only "js ''abc''" "server None"] t
    by (simp add: js_def)
  have a: "localStorage half_written (js ''token'') = Some (js ''abc'')"
    and b: "localStorage half_written (js ''is_admin'') = None"
    by (simp_all add: half_written_eq js_def)
  have c: "requests (analyzeMessage (server None) (half_written\<lparr>message := js ''hello''\<rparr>)) =
       requests (half_written\<lparr>message := js ''hello''\<rparr>)
         @ [analyze_request (server None) (js ''hello'') (js ''abc'')]"
    using analyzeMessage_frame(1)
      [of "half_written\<lparr>message := js ''hello''\<rparr>" "js ''abc''" "server None"] a
    by (simp add: js_def)
  have d: "requests (half_written\<lparr>message := js ''hello''\<rparr>) = requests half_written"
    by (simp add: requests_def)
  have "requests (analyzeMessage (server None) (half_written\<lparr>message := js ''hello''\<rparr>)) \<noteq>
     requests (alert (js ''Please login first'') (half_written\<lparr>message := js ''hello''\<rparr>))"
    unfolding c by (simp add: requests_simps)
  then have e: "analyzeMessage (server None) (half_written\<lparr>message := js ''hello''\<rparr>) \<noteq>
       alert (js ''Please login first'') (half_written\<lparr>message := js ''hello''\<rparr>)"
    by auto
  show ?thesis using a b c d e t(1) u by (simp add: login_page_def page0_def)
qed

end
